theory Spec2Isabelle
  imports Complex_Main
begin

section \<open>Values, messages and events\<close>

text \<open>
  The client of \<^verbatim>\<open>src/client.py\<close> is modelled by explicit state passing.  Python
  strings and byte strings are both HOL strings; a character stands for a code point
  below 256.  The values that \<^verbatim>\<open>json.loads\<close> and \<^verbatim>\<open>response.json()\<close> produce, which
  are also the values the fields of the \<^verbatim>\<open>Settings\<close> dataclass hold at run time (Python
  does not enforce the annotations, and \<^verbatim>\<open>load_settings\<close> stores whatever the file
  holds), are the type \<open>json\<close>.  A dictionary is an association list in insertion order;
  the keys of a Python dictionary are distinct.
\<close>

type_synonym bytes = string
type_synonym path = string

datatype pyfloat = Finite rat | Infinite bool | NaN

datatype json =
    JNull
  | JBool bool
  | JInt int
  | JFloat pyfloat
  | JStr string
  | JList "json list"
  | JDict "(string \<times> json) list"

text \<open>Python truthiness (\<^verbatim>\<open>bool(v)\<close>) of such a value.\<close>

fun truthy :: "json \<Rightarrow> bool" where
  "truthy JNull = False"
| "truthy (JBool b) = b"
| "truthy (JInt n) = (n \<noteq> 0)"
| "truthy (JFloat f) = (f \<noteq> Finite 0)"
| "truthy (JStr s) = (s \<noteq> [])"
| "truthy (JList xs) = (xs \<noteq> [])"
| "truthy (JDict kvs) = (kvs \<noteq> [])"

text \<open>\<^verbatim>\<open>d.get(k, default)\<close> and \<^verbatim>\<open>d.get(k)\<close>, whose default is \<^verbatim>\<open>None\<close>.\<close>

definition dict_get_default :: "(string \<times> json) list \<Rightarrow> string \<Rightarrow> json \<Rightarrow> json" where
  "dict_get_default d k dflt = (case map_of d k of Some v \<Rightarrow> v | None \<Rightarrow> dflt)"

definition dict_get :: "(string \<times> json) list \<Rightarrow> string \<Rightarrow> json" where
  "dict_get d k = dict_get_default d k JNull"

text \<open>
  Exceptions, by the classes the handlers of the source tell apart, and what the program
  prints or logs.  The text of each message is a constructor carrying the values that
  the source formats into it.  A \<^verbatim>\<open>MarkupError\<close> of the console carries the message that
  could not be rendered.
\<close>

datatype exn =
    ValueError string
  | TypeError string
  | ClientError string
  | OSError string
  | InvalidToken
  | AttributeError string
  | EOFError
  | MarkupError msg
  | OtherException string
and msg =
    Verifying string
  | Verified_successfully
  | Not_verified_yet
  | Status_is json
  | Verification_failed json
  | Connection_error_retrying nat nat
  | Connection_error exn
  | Error_occurred_retrying nat nat
  | Error_during_verification exn
  | Failed_to_save_settings exn
  | Unknown_setting string
  | Could_not_load_settings exn
  | Initialization_Error exn
  | Update_Settings_header
  | Settings_updated_and_saved
  | Invalid_input exn
  | Error_updating_settings exn

datatype event =
    Print msg
  | LogError msg
  | LogWarning msg
  | Post string
  | Sleep rat

section \<open>Library functions\<close>

text \<open>
  The functions of \<^verbatim>\<open>json\<close>, \<^verbatim>\<open>cryptography\<close> and \<^verbatim>\<open>rich\<close> that the client calls,
  and the attribute names that the interpreter gives every object, are parameters:
  \<^item> \<open>json_dumps v\<close> is \<^verbatim>\<open>json.dumps(v).encode()\<close>;
  \<^item> \<open>json_loads b\<close> is \<^verbatim>\<open>json.loads(b.decode())\<close>, \<open>None\<close> when either call raises
    (\<^verbatim>\<open>UnicodeDecodeError\<close> and \<^verbatim>\<open>JSONDecodeError\<close> are both \<^verbatim>\<open>ValueError\<close>s);
  \<^item> \<open>fernet_encrypt key iv data\<close> is \<^verbatim>\<open>Fernet(key).encrypt(data)\<close>, where \<open>iv\<close> is the
    time stamp and random initialisation vector the call draws;
  \<^item> \<open>fernet_decrypt key token\<close> is \<^verbatim>\<open>Fernet(key).decrypt(token)\<close>, \<open>None\<close> when it raises
    \<^verbatim>\<open>InvalidToken\<close>;
  \<^item> \<open>fernet_key_ok key\<close> holds when the constructor \<^verbatim>\<open>Fernet(key)\<close> accepts the key;
  \<^item> \<open>kdf_derive salt secret\<close> is
    \<^verbatim>\<open>base64.urlsafe_b64encode(PBKDF2HMAC(SHA256(), 32, salt, 100000).derive(secret))\<close>;
  \<^item> \<open>markup_ok m\<close> holds when \<^verbatim>\<open>console.print\<close> renders the text of the message \<open>m\<close>,
    in which the source wraps the interpolated value in a colour tag, without raising
    \<^verbatim>\<open>MarkupError\<close>;
  \<^item> \<open>object_attribute name\<close> holds for the names, other than the fields and other than
    \<^verbatim>\<open>__class__\<close>, \<^verbatim>\<open>__dict__\<close> and \<^verbatim>\<open>__weakref__\<close>, that \<^verbatim>\<open>hasattr\<close> finds on every
    instance of a dataclass (\<^verbatim>\<open>__doc__\<close>, \<^verbatim>\<open>__eq__\<close>, \<^verbatim>\<open>__init__\<close> and the like; the list
    depends on the version of the interpreter).
\<close>

record pylib =
  json_dumps :: "json \<Rightarrow> bytes"
  json_loads :: "bytes \<Rightarrow> json option"
  fernet_encrypt :: "bytes \<Rightarrow> bytes \<Rightarrow> bytes \<Rightarrow> bytes"
  fernet_decrypt :: "bytes \<Rightarrow> bytes \<Rightarrow> bytes option"
  fernet_key_ok :: "bytes \<Rightarrow> bool"
  kdf_derive :: "bytes \<Rightarrow> bytes \<Rightarrow> bytes"
  markup_ok :: "msg \<Rightarrow> bool"
  object_attribute :: "string \<Rightarrow> bool"

text \<open>
  \<^verbatim>\<open>console.print\<close> of a message.  It can fail where the text put between the tags
  comes from the server or from a \<^verbatim>\<open>MarkupError\<close>, whose text quotes markup.  The prints
  that interpolate nothing, counters, the hardware id (base64 text) or the text of any
  other exception are taken to succeed.
\<close>

fun foreign_text :: "msg \<Rightarrow> bool" where
  "foreign_text (Status_is v) = True"
| "foreign_text (Verification_failed v) = True"
| "foreign_text (Error_during_verification (MarkupError m)) = True"
| "foreign_text m = False"

definition console_print :: "pylib \<Rightarrow> msg \<Rightarrow> exn + event" where
  "console_print lib m =
     (if foreign_text m \<and> \<not> markup_ok lib m then Inl (MarkupError m) else Inr (Print m))"

section \<open>verify\_hwid\<close>

definition MAX_RETRIES :: nat where
  "MAX_RETRIES = 3"

definition RETRY_DELAY :: rat where
  "RETRY_DELAY = 2"

text \<open>
  What one \<^verbatim>\<open>session.post\<close> followed by \<^verbatim>\<open>response.json()\<close> does: it raises an
  \<^verbatim>\<open>aiohttp.ClientError\<close>, raises another \<^verbatim>\<open>Exception\<close> (the total timeout raises
  \<^verbatim>\<open>asyncio.TimeoutError\<close>, which is one), or yields a status and the decoded body.
  The network is a function from the attempt number to that outcome.
\<close>

datatype attempt_outcome =
    RaisesClientError string
  | RaisesException string
  | Responds int json

text \<open>
  Lines 178 to 191: the body of the \<^verbatim>\<open>async with\<close> once \<open>data\<close> is bound.  Only a
  dictionary has \<^verbatim>\<open>get\<close>; on any other value the first \<^verbatim>\<open>data.get\<close> raises
  \<^verbatim>\<open>AttributeError\<close>.  The prints of lines 186 and 190 put text of the server between
  markup tags and raise when it does not render.
\<close>

definition interpret_response :: "pylib \<Rightarrow> int \<Rightarrow> json \<Rightarrow> exn + (bool \<times> event list)" where
  "interpret_response lib status data =
     (case data of
        JDict d \<Rightarrow>
          if status = 200 then
            if truthy (dict_get d ''exists'') \<and> truthy (dict_get d ''verified'')
               \<and> dict_get d ''status'' = JStr ''active''
            then Inr (True, [Print Verified_successfully])
            else if \<not> truthy (dict_get d ''verified'')
              then Inr (False, [Print Not_verified_yet])
            else if dict_get d ''status'' \<noteq> JStr ''active''
              then (case console_print lib (Status_is (dict_get d ''status'')) of
                      Inl e \<Rightarrow> Inl e
                    | Inr ev \<Rightarrow> Inr (False, [ev]))
            else Inr (False, [])
          else (case console_print lib
                       (Verification_failed (dict_get_default d ''error'' (JStr ''Unknown error''))) of
                  Inl e \<Rightarrow> Inl e
                | Inr ev \<Rightarrow> Inr (False, [ev]))
      | _ \<Rightarrow> Inl (AttributeError ''get''))"

text \<open>The \<^verbatim>\<open>try\<close> block of one iteration: the request, then the interpretation.\<close>

definition attempt_try :: "pylib \<Rightarrow> attempt_outcome \<Rightarrow> exn + (bool \<times> event list)" where
  "attempt_try lib oc =
     (case oc of
        RaisesClientError e \<Rightarrow> Inl (ClientError e)
      | RaisesException e \<Rightarrow> Inl (OtherException e)
      | Responds status data \<Rightarrow> interpret_response lib status data)"

text \<open>
  One iteration of the \<^verbatim>\<open>for\<close> loop with its two handlers: it returns from the
  function, continues with the next attempt, or raises when the print of the second
  handler fails in its turn.
\<close>

datatype iteration = Return bool "event list" | Continue "event list" | Raise exn "event list"

definition attempt_body :: "pylib \<Rightarrow> nat \<Rightarrow> attempt_outcome \<Rightarrow> iteration" where
  "attempt_body lib attempt oc =
     (case attempt_try lib oc of
        Inr (b, evs) \<Rightarrow> Return b evs
      | Inl (ClientError e) \<Rightarrow>
          if attempt < MAX_RETRIES - 1
          then Continue [Print (Connection_error_retrying (attempt + 1) MAX_RETRIES),
                         Sleep RETRY_DELAY]
          else Return False [Print (Connection_error (ClientError e))]
      | Inl e \<Rightarrow>
          if attempt < MAX_RETRIES - 1
          then Continue [Print (Error_occurred_retrying (attempt + 1) MAX_RETRIES),
                         Sleep RETRY_DELAY]
          else (case console_print lib (Error_during_verification e) of
                  Inl e' \<Rightarrow> Raise e' []
                | Inr ev \<Rightarrow> Return False [ev]))"

text \<open>
  The loop over \<^verbatim>\<open>range(self.MAX_RETRIES)\<close>; every iteration starts with a POST of the
  hardware id.  Falling out of the loop returns \<^verbatim>\<open>False\<close> (line 208).  Opening the
  session (lines 158 and 159) does not bear on the result and is left out.
\<close>

fun verify_loop ::
  "pylib \<Rightarrow> (nat \<Rightarrow> attempt_outcome) \<Rightarrow> string \<Rightarrow> nat list \<Rightarrow> (exn + bool) \<times> event list"
where
  "verify_loop lib net hwid [] = (Inr False, [])"
| "verify_loop lib net hwid (attempt # rest) =
     (case attempt_body lib attempt (net attempt) of
        Return b evs \<Rightarrow> (Inr b, Post hwid # evs)
      | Raise e evs \<Rightarrow> (Inl e, Post hwid # evs)
      | Continue evs \<Rightarrow>
          (case verify_loop lib net hwid rest of
             (r, evs') \<Rightarrow> (r, Post hwid # evs @ evs')))"

text \<open>
  The result is the Boolean that \<^verbatim>\<open>verify_hwid\<close> returns or the exception that leaves
  it, with the events of the call.
\<close>

definition verify_hwid ::
  "pylib \<Rightarrow> (nat \<Rightarrow> attempt_outcome) \<Rightarrow> string \<Rightarrow> (exn + bool) \<times> event list"
where
  "verify_hwid lib net hwid =
     (case verify_loop lib net hwid [0..<MAX_RETRIES] of
        (r, evs) \<Rightarrow> (r, Print (Verifying hwid) # evs))"

section \<open>Files\<close>

text \<open>
  The file system is a map from paths to contents.  \<^verbatim>\<open>Path.rename\<close> replaces an existing
  target, as it does on POSIX systems.
\<close>

type_synonym filesys = "path \<rightharpoonup> bytes"

definition SETTINGS_FILE :: path where
  "SETTINGS_FILE = ''settings.dll''"

definition ENCRYPTION_KEY_FILE :: path where
  "ENCRYPTION_KEY_FILE = ''key.key''"

text \<open>\<^verbatim>\<open>Path.with_suffix\<close> for a path that is a bare file name.\<close>

definition with_suffix :: "path \<Rightarrow> string \<Rightarrow> path" where
  "with_suffix p suf =
     (if CHR ''.'' \<in> set (tl p)
      then rev (tl (dropWhile (\<lambda>c. c \<noteq> CHR ''.'') (rev p))) @ suf
      else p @ suf)"

definition exists :: "filesys \<Rightarrow> path \<Rightarrow> bool" where
  "exists fs p = (fs p \<noteq> None)"

definition rename :: "filesys \<Rightarrow> path \<Rightarrow> path \<Rightarrow> filesys" where
  "rename fs src dst = (fs(dst := fs src))(src := None)"

definition unlink :: "filesys \<Rightarrow> path \<Rightarrow> filesys" where
  "unlink fs p = fs(p := None)"

text \<open>
  \<^verbatim>\<open>Path.write_bytes\<close> succeeds, or raises \<^verbatim>\<open>OSError\<close> either before the file is opened
  (the file system is as before) or after (the path holds whatever was written so far).
  \<^verbatim>\<open>Path.read_bytes\<close> succeeds or raises.  Which one happens is an input of the model.
\<close>

datatype write_outcome = WriteOk | WriteFailsAtOpen | WriteFailsPartial bytes

datatype read_outcome = ReadOk | ReadFails

definition write_bytes :: "write_outcome \<Rightarrow> filesys \<Rightarrow> path \<Rightarrow> bytes \<Rightarrow> (exn \<times> filesys) + filesys" where
  "write_bytes wo fs p data =
     (case wo of
        WriteOk \<Rightarrow> Inr (fs(p \<mapsto> data))
      | WriteFailsAtOpen \<Rightarrow> Inl (OSError ''write_bytes'', fs)
      | WriteFailsPartial part \<Rightarrow> Inl (OSError ''write_bytes'', fs(p \<mapsto> part)))"

definition read_bytes :: "read_outcome \<Rightarrow> filesys \<Rightarrow> path \<Rightarrow> exn + bytes" where
  "read_bytes ro fs p =
     (case ro of
        ReadFails \<Rightarrow> Inl (OSError ''read_bytes'')
      | ReadOk \<Rightarrow> (case fs p of None \<Rightarrow> Inl (OSError ''No such file'') | Some b \<Rightarrow> Inr b))"

section \<open>Settings\<close>

record Settings =
  total_day :: json
  commit_freq :: json
  variability :: json
  repo_link :: json
  commit_message_template :: json
  author_name :: json
  author_email :: json

text \<open>\<^verbatim>\<open>Settings()\<close>: the defaults of the dataclass (lines 40 to 46).\<close>

definition Settings_default :: Settings where
  "Settings_default =
     \<lparr> total_day = JInt 36600,
       commit_freq = JInt 100,
       variability = JBool False,
       repo_link = JStr ''https://github.com/username/repo.git'',
       commit_message_template = JStr ''commit #{}'',
       author_name = JStr ''PG Mohd Azhan FIkri'',
       author_email = JStr ''harrydotmyx@gmail.com'' \<rparr>"

text \<open>\<^verbatim>\<open>dataclasses.asdict\<close>: the fields in declaration order.\<close>

definition asdict :: "Settings \<Rightarrow> (string \<times> json) list" where
  "asdict s =
     [(''total_day'', total_day s),
      (''commit_freq'', commit_freq s),
      (''variability'', variability s),
      (''repo_link'', repo_link s),
      (''commit_message_template'', commit_message_template s),
      (''author_name'', author_name s),
      (''author_email'', author_email s)]"

text \<open>
  \<^verbatim>\<open>hasattr\<close> and \<^verbatim>\<open>setattr\<close> on a \<^verbatim>\<open>Settings\<close> instance.  The record holds what
  reading each field gives: the entry of the instance dictionary, or the default of the
  class when the instance has none.  The names in the instance dictionary that are not
  fields are kept beside the record, in \<open>extras\<close>, while a file is loaded.

  \<^verbatim>\<open>hasattr\<close> finds the fields, the attributes every object has, and whatever else is
  in the instance dictionary.
\<close>

definition field_names :: "string list" where
  "field_names = map fst (asdict Settings_default)"

definition hasattr :: "pylib \<Rightarrow> string list \<Rightarrow> string \<Rightarrow> bool" where
  "hasattr lib extras key =
     (key \<in> set field_names \<or> key \<in> set [''__class__'', ''__dict__'', ''__weakref__'']
      \<or> object_attribute lib key \<or> key \<in> set extras)"

text \<open>
  The fields as read after \<^verbatim>\<open>__dict__\<close> was replaced by the dictionary \<open>d\<close>: its entry,
  or the default of the class.
\<close>

definition fields_of_dict :: "(string \<times> json) list \<Rightarrow> Settings" where
  "fields_of_dict d =
     \<lparr> total_day = dict_get_default d ''total_day'' (total_day Settings_default),
       commit_freq = dict_get_default d ''commit_freq'' (commit_freq Settings_default),
       variability = dict_get_default d ''variability'' (variability Settings_default),
       repo_link = dict_get_default d ''repo_link'' (repo_link Settings_default),
       commit_message_template =
         dict_get_default d ''commit_message_template'' (commit_message_template Settings_default),
       author_name = dict_get_default d ''author_name'' (author_name Settings_default),
       author_email = dict_get_default d ''author_email'' (author_email Settings_default) \<rparr>"

text \<open>
  \<^verbatim>\<open>setattr\<close> with a value that came out of \<^verbatim>\<open>json.loads\<close>.  A field is overwritten.
  \<^verbatim>\<open>__class__\<close> takes a class only and \<^verbatim>\<open>__weakref__\<close> cannot be written: both raise.
  \<^verbatim>\<open>__dict__\<close> takes a dictionary, which becomes the instance dictionary, and raises on
  anything else.  Any other name becomes an entry of the instance dictionary and leaves
  the fields alone.  (An entry that shadows \<^verbatim>\<open>__dataclass_fields__\<close> would make a later
  \<^verbatim>\<open>asdict\<close> fail; this is not followed further.)
\<close>

definition setattr ::
  "Settings \<Rightarrow> string list \<Rightarrow> string \<Rightarrow> json \<Rightarrow> exn + (Settings \<times> string list)"
where
  "setattr s extras key v =
     (if key = ''total_day'' then Inr (s\<lparr>total_day := v\<rparr>, extras)
      else if key = ''commit_freq'' then Inr (s\<lparr>commit_freq := v\<rparr>, extras)
      else if key = ''variability'' then Inr (s\<lparr>variability := v\<rparr>, extras)
      else if key = ''repo_link'' then Inr (s\<lparr>repo_link := v\<rparr>, extras)
      else if key = ''commit_message_template''
        then Inr (s\<lparr>commit_message_template := v\<rparr>, extras)
      else if key = ''author_name'' then Inr (s\<lparr>author_name := v\<rparr>, extras)
      else if key = ''author_email'' then Inr (s\<lparr>author_email := v\<rparr>, extras)
      else if key = ''__class__'' then Inl (TypeError ''__class__ must be set to a class'')
      else if key = ''__weakref__'' then Inl (AttributeError ''__weakref__ is not writable'')
      else if key = ''__dict__'' then
        (case v of
           JDict d \<Rightarrow> Inr (fields_of_dict d, filter (\<lambda>k. k \<notin> set field_names) (map fst d))
         | _ \<Rightarrow> Inl (TypeError ''__dict__ must be set to a dictionary''))
      else Inr (s, key # extras))"

text \<open>The state of an \<^verbatim>\<open>HWIDClient\<close> that the settings code reads and writes.\<close>

record client =
  settings :: Settings
  cipher_suite :: bytes

section \<open>init\_encryption\<close>

text \<open>
  Lines 66 to 87.  The two arguments \<open>salt\<close> and \<open>secret\<close> are what the two calls of
  \<^verbatim>\<open>os.urandom\<close> return when the key file is absent.  The key is written before
  \<^verbatim>\<open>Fernet(key)\<close> is built; a key the constructor refuses surfaces as the wrapped
  exception of line 87.
\<close>

definition init_encryption :: "pylib \<Rightarrow> bytes \<Rightarrow> bytes \<Rightarrow> filesys \<Rightarrow> (exn + bytes) \<times> filesys" where
  "init_encryption lib salt secret fs =
     (case (if \<not> exists fs ENCRYPTION_KEY_FILE
            then (let key = kdf_derive lib salt secret
                  in (Some key, fs(ENCRYPTION_KEY_FILE \<mapsto> key)))
            else (fs ENCRYPTION_KEY_FILE, fs)) of
        (Some key, fs') \<Rightarrow>
          (if fernet_key_ok lib key then Inr key
           else Inl (OtherException ''Failed to initialize encryption''), fs')
      | (None, fs') \<Rightarrow> (Inl (OtherException ''Failed to initialize encryption''), fs'))"

section \<open>save\_settings and load\_settings\<close>

text \<open>
  Lines 89 to 112.  The result is the exception that \<^verbatim>\<open>save_settings\<close> raises, if any,
  the file system it leaves and what it logs.
\<close>

definition save_settings ::
  "pylib \<Rightarrow> write_outcome \<Rightarrow> bytes \<Rightarrow> client \<Rightarrow> filesys \<Rightarrow> exn option \<times> filesys \<times> event list"
where
  "save_settings lib wo iv c fs =
     (let (backup_path, fs1) =
            (if exists fs SETTINGS_FILE
             then (Some (with_suffix SETTINGS_FILE ''.bak''),
                   rename fs SETTINGS_FILE (with_suffix SETTINGS_FILE ''.bak''))
             else (None, fs));
          settings_data = json_dumps lib (JDict (asdict (settings c)));
          encrypted_data = fernet_encrypt lib (cipher_suite c) iv settings_data
      in case write_bytes wo fs1 SETTINGS_FILE encrypted_data of
           Inr fs2 \<Rightarrow>
             (None,
              (case backup_path of
                 Some b \<Rightarrow> if exists fs2 b then unlink fs2 b else fs2
               | None \<Rightarrow> fs2),
              [])
         | Inl (e, fs2) \<Rightarrow>
             (Some e,
              (case backup_path of
                 Some b \<Rightarrow> if exists fs2 b then rename fs2 b SETTINGS_FILE else fs2
               | None \<Rightarrow> fs2),
              [LogError (Failed_to_save_settings e)]))"

text \<open>
  The loop of lines 123 to 127 over the items of the decoded dictionary.  It stops at the
  first \<^verbatim>\<open>setattr\<close> that raises; what was assigned before stays assigned.  The result is
  the exception, if any, the record and the warnings logged.
\<close>

fun apply_items ::
  "pylib \<Rightarrow> (string \<times> json) list \<Rightarrow> string list \<Rightarrow> Settings
     \<Rightarrow> exn option \<times> Settings \<times> event list"
where
  "apply_items lib [] extras s = (None, s, [])"
| "apply_items lib ((key, v) # items) extras s =
     (if hasattr lib extras key
      then (case setattr s extras key v of
              Inl e \<Rightarrow> (Some e, s, [])
            | Inr (s', extras') \<Rightarrow> apply_items lib items extras' s')
      else (case apply_items lib items extras s of
              (r, s', evs) \<Rightarrow> (r, s', LogWarning (Unknown_setting key) # evs)))"

text \<open>
  The \<^verbatim>\<open>try\<close> block of lines 118 to 127, on an instance whose dictionary holds fields
  only, as \<^verbatim>\<open>Settings()\<close> and the assignments of \<^verbatim>\<open>update_settings\<close> leave it.
  \<^verbatim>\<open>items()\<close> exists on a dictionary only.
\<close>

definition load_try ::
  "pylib \<Rightarrow> read_outcome \<Rightarrow> client \<Rightarrow> filesys \<Rightarrow> exn option \<times> Settings \<times> event list"
where
  "load_try lib ro c fs =
     (case read_bytes ro fs SETTINGS_FILE of
        Inl e \<Rightarrow> (Some e, settings c, [])
      | Inr encrypted_data \<Rightarrow>
          (case fernet_decrypt lib (cipher_suite c) encrypted_data of
             None \<Rightarrow> (Some InvalidToken, settings c, [])
           | Some decrypted_data \<Rightarrow>
               (case json_loads lib decrypted_data of
                  None \<Rightarrow> (Some (ValueError ''json''), settings c, [])
                | Some (JDict settings_dict) \<Rightarrow> apply_items lib settings_dict [] (settings c)
                | Some _ \<Rightarrow> (Some (AttributeError ''items''), settings c, []))))"

text \<open>
  Lines 114 to 130.  The function has no exceptional result: the handler of line 129
  catches every \<^verbatim>\<open>Exception\<close> of the block and only logs it.
\<close>

definition load_settings :: "pylib \<Rightarrow> read_outcome \<Rightarrow> client \<Rightarrow> filesys \<Rightarrow> client \<times> event list" where
  "load_settings lib ro c fs =
     (if exists fs SETTINGS_FILE
      then (case load_try lib ro c fs of
              (None, s, evs) \<Rightarrow> (c\<lparr>settings := s\<rparr>, evs)
            | (Some e, s, evs) \<Rightarrow>
                (c\<lparr>settings := s\<rparr>, evs @ [LogWarning (Could_not_load_settings e)]))
      else (c, []))"

text \<open>
  \<^verbatim>\<open>HWIDClient.__init__\<close> (lines 49 to 64), as far as the settings go: default settings,
  then the key, then the settings file.
\<close>

definition HWIDClient_init ::
  "pylib \<Rightarrow> bytes \<Rightarrow> bytes \<Rightarrow> read_outcome \<Rightarrow> filesys \<Rightarrow> (exn + client) \<times> filesys \<times> event list"
where
  "HWIDClient_init lib salt secret ro fs =
     (case init_encryption lib salt secret fs of
        (Inl e, fs') \<Rightarrow> (Inl e, fs', [LogError (Initialization_Error e)])
      | (Inr key, fs') \<Rightarrow>
          (case load_settings lib ro \<lparr>settings = Settings_default, cipher_suite = key\<rparr> fs' of
             (c, evs) \<Rightarrow> (Inr c, fs', evs)))"

section \<open>update\_settings\<close>

text \<open>
  The string methods the prompts use, on code points below 256.  \<^verbatim>\<open>str.isdigit\<close> also
  accepts the superscript digits U+00B2, U+00B3 and U+00B9, on which \<^verbatim>\<open>int\<close> raises
  \<^verbatim>\<open>ValueError\<close>.  \<open>py_int\<close> is \<^verbatim>\<open>int\<close> on the strings that can reach it here, those that
  passed \<^verbatim>\<open>isdigit\<close>.
\<close>

definition ascii_digit :: "char \<Rightarrow> bool" where
  "ascii_digit c = (c \<in> set ''0123456789'')"

definition isdigit :: "string \<Rightarrow> bool" where
  "isdigit s = (s \<noteq> [] \<and> list_all (\<lambda>c. ascii_digit c \<or> c \<in> set [CHR 0xB2, CHR 0xB3, CHR 0xB9]) s)"

definition digit_value :: "char \<Rightarrow> int" where
  "digit_value c = of_char c - 48"

definition decimal_value :: "string \<Rightarrow> int" where
  "decimal_value s = foldl (\<lambda>acc c. 10 * acc + digit_value c) 0 s"

definition py_int :: "string \<Rightarrow> exn + int" where
  "py_int s =
     (if s \<noteq> [] \<and> list_all ascii_digit s then Inr (decimal_value s)
      else Inl (ValueError ''invalid literal for int() with base 10''))"

definition isspace :: "char \<Rightarrow> bool" where
  "isspace c =
     (c \<in> set [CHR 0x09, CHR 0x0A, CHR 0x0B, CHR 0x0C, CHR 0x0D, CHR 0x1C, CHR 0x1D,
                CHR 0x1E, CHR 0x1F, CHR 0x20, CHR 0x85, CHR 0xA0])"

definition strip :: "string \<Rightarrow> string" where
  "strip s = rev (dropWhile isspace (rev (dropWhile isspace s)))"

definition uppercase :: string where
  "uppercase = ''ABCDEFGHIJKLMNOPQRSTUVWXYZ'' @
     [CHR 0xC0, CHR 0xC1, CHR 0xC2, CHR 0xC3, CHR 0xC4, CHR 0xC5, CHR 0xC6, CHR 0xC7,
      CHR 0xC8, CHR 0xC9, CHR 0xCA, CHR 0xCB, CHR 0xCC, CHR 0xCD, CHR 0xCE, CHR 0xCF,
      CHR 0xD0, CHR 0xD1, CHR 0xD2, CHR 0xD3, CHR 0xD4, CHR 0xD5, CHR 0xD6, CHR 0xD8,
      CHR 0xD9, CHR 0xDA, CHR 0xDB, CHR 0xDC, CHR 0xDD, CHR 0xDE]"

definition lowercase :: string where
  "lowercase = ''abcdefghijklmnopqrstuvwxyz'' @
     [CHR 0xE0, CHR 0xE1, CHR 0xE2, CHR 0xE3, CHR 0xE4, CHR 0xE5, CHR 0xE6, CHR 0xE7,
      CHR 0xE8, CHR 0xE9, CHR 0xEA, CHR 0xEB, CHR 0xEC, CHR 0xED, CHR 0xEE, CHR 0xEF,
      CHR 0xF0, CHR 0xF1, CHR 0xF2, CHR 0xF3, CHR 0xF4, CHR 0xF5, CHR 0xF6, CHR 0xF8,
      CHR 0xF9, CHR 0xFA, CHR 0xFB, CHR 0xFC, CHR 0xFD, CHR 0xFE]"

definition lower :: "string \<Rightarrow> string" where
  "lower s = map (\<lambda>c. case map_of (zip uppercase lowercase) c of Some l \<Rightarrow> l | None \<Rightarrow> c) s"

definition endswith :: "string \<Rightarrow> string \<Rightarrow> bool" where
  "endswith s suf = (take (length suf) (rev s) = rev suf)"

text \<open>
  \<^verbatim>\<open>console.input\<close>: the next line of the user's input, \<^verbatim>\<open>EOFError\<close> when there is none.
\<close>

definition console_input :: "string list \<Rightarrow> exn + (string \<times> string list)" where
  "console_input stdin = (case stdin of [] \<Rightarrow> Inl EOFError | line # rest \<Rightarrow> Inr (line, rest))"

text \<open>
  The check of lines 276 to 278, which lines 281 to 283 repeat with another message: the
  text is refused unless it is all digits and its value is positive.
\<close>

definition positive_number :: "string \<Rightarrow> string \<Rightarrow> exn + int" where
  "positive_number s what =
     (if \<not> isdigit s then Inl (ValueError what)
      else (case py_int s of
              Inl e \<Rightarrow> Inl e
            | Inr n \<Rightarrow> if n \<le> 0 then Inl (ValueError what) else Inr n))"

text \<open>
  The \<^verbatim>\<open>try\<close> block of lines 275 to 297.  Each accepted answer is stored in
  \<^verbatim>\<open>self.settings\<close> at once, before the next prompt; \<^verbatim>\<open>save_settings\<close> is the last
  step.  The result is the exception raised, if any, with the client, the file system,
  the input still unread and the events.
\<close>

definition update_try ::
  "pylib \<Rightarrow> write_outcome \<Rightarrow> bytes \<Rightarrow> client \<Rightarrow> filesys \<Rightarrow> string list
     \<Rightarrow> exn option \<times> client \<times> filesys \<times> string list \<times> event list"
where
  "update_try lib wo iv c fs stdin =
     (case console_input stdin of
        Inl e \<Rightarrow> (Some e, c, fs, stdin, [])
      | Inr (total_day_text, in1) \<Rightarrow>
     (case positive_number total_day_text ''Total days must be a positive number'' of
        Inl e \<Rightarrow> (Some e, c, fs, in1, [])
      | Inr td \<Rightarrow>
     (let c1 = c\<lparr>settings := (settings c)\<lparr>total_day := JInt td\<rparr>\<rparr> in
      case console_input in1 of
        Inl e \<Rightarrow> (Some e, c1, fs, in1, [])
      | Inr (commit_freq_text, in2) \<Rightarrow>
     (case positive_number commit_freq_text ''Commits per day must be a positive number'' of
        Inl e \<Rightarrow> (Some e, c1, fs, in2, [])
      | Inr cf \<Rightarrow>
     (let c2 = c1\<lparr>settings := (settings c1)\<lparr>commit_freq := JInt cf\<rparr>\<rparr> in
      case console_input in2 of
        Inl e \<Rightarrow> (Some e, c2, fs, in2, [])
      | Inr (answer, in3) \<Rightarrow>
     (let c3 = c2\<lparr>settings :=
                  (settings c2)\<lparr>variability := JBool (lower (strip answer) = ''yes'')\<rparr>\<rparr> in
      case console_input in3 of
        Inl e \<Rightarrow> (Some e, c3, fs, in3, [])
      | Inr (url, in4) \<Rightarrow>
     (let repo_link_text = strip url in
      if \<not> endswith repo_link_text ''.git''
      then (Some (ValueError ''Repository URL must end with .git''), c3, fs, in4, [])
      else
       (let c4 = c3\<lparr>settings := (settings c3)\<lparr>repo_link := JStr repo_link_text\<rparr>\<rparr> in
        case save_settings lib wo iv c4 fs of
          (Some e, fs', evs) \<Rightarrow> (Some e, c4, fs', in4, evs)
        | (None, fs', evs) \<Rightarrow>
            (None, c4, fs', in4, evs @ [Print Settings_updated_and_saved])))))))))"

text \<open>\<^verbatim>\<open>prompt_return\<close> (lines 354 to 357): half a second of sleep, then one line of input.\<close>

definition prompt_return :: "string list \<Rightarrow> exn option \<times> string list \<times> event list" where
  "prompt_return stdin =
     (case console_input stdin of
        Inl e \<Rightarrow> (Some e, stdin, [Sleep (1 / 2)])
      | Inr (line, rest) \<Rightarrow> (None, rest, [Sleep (1 / 2)]))"

text \<open>
  Lines 270 to 304: the header, the block with its two handlers (\<^verbatim>\<open>ValueError\<close> first,
  then any other \<^verbatim>\<open>Exception\<close>), and \<^verbatim>\<open>prompt_return\<close>, whose exception is not caught here.
\<close>

definition update_settings ::
  "pylib \<Rightarrow> write_outcome \<Rightarrow> bytes \<Rightarrow> client \<Rightarrow> filesys \<Rightarrow> string list
     \<Rightarrow> exn option \<times> client \<times> filesys \<times> string list \<times> event list"
where
  "update_settings lib wo iv c fs stdin =
     (case update_try lib wo iv c fs stdin of
        (r, c', fs', in', evs) \<Rightarrow>
          (case prompt_return in' of
             (r', in'', evs') \<Rightarrow>
               (r', c', fs', in'',
                Print Update_Settings_header # evs @
                (case r of
                   None \<Rightarrow> []
                 | Some (ValueError m) \<Rightarrow> [Print (Invalid_input (ValueError m))]
                 | Some e \<Rightarrow> [Print (Error_updating_settings e)]) @ evs')))"

section \<open>Predicates and example inputs of the properties\<close>




text \<open>
  A text that denotes a positive integer: decimal digits, at least one of them, not all
  of them zero.
\<close>

definition positive_integer_text :: "string \<Rightarrow> bool" where
  "positive_integer_text s =
     (s \<noteq> [] \<and> list_all ascii_digit s \<and> list_ex (\<lambda>c. c \<noteq> CHR ''0'') s)"

text \<open>The field names that the specification gives the settings record.\<close>

definition spec_field_names :: "string list" where
  "spec_field_names =
     [''total_days'', ''commits_per_day'', ''variability_enabled'', ''repository_url'',
      ''commit_message_template'', ''author_name'', ''author_email'']"




definition body_truthy :: "(string \<times> json) list" where
  "body_truthy = [(''exists'', JInt 1), (''verified'', JStr ''yes''), (''status'', JStr ''active'')]"






definition net_closing_tag :: "nat \<Rightarrow> attempt_outcome" where
  "net_closing_tag attempt = Responds 429 (JDict [(''error'', JStr ''[/]'')])"

definition net_truthy :: "nat \<Rightarrow> attempt_outcome" where
  "net_truthy attempt = Responds 200 (JDict body_truthy)"

text \<open>
  A small instance of the library functions for the examples: the cipher prefixes the
  key and a two-character initialisation vector, the codec knows the default record, and
  the console renders a message when the text it interpolates is a string without an
  opening bracket.
\<close>

fun demo_markup_ok :: "msg \<Rightarrow> bool" where
  "demo_markup_ok (Status_is (JStr s)) = (CHR ''['' \<notin> set s)"
| "demo_markup_ok (Verification_failed (JStr s)) = (CHR ''['' \<notin> set s)"
| "demo_markup_ok m = False"

definition demo_lib :: pylib where
  "demo_lib =
     \<lparr> json_dumps =
         (\<lambda>v. if v = JDict (asdict Settings_default) then ''{defaults}'' else ''{other}''),
       json_loads =
         (\<lambda>b. if b = ''{defaults}'' then Some (JDict (asdict Settings_default)) else None),
       fernet_encrypt = (\<lambda>key iv data. key @ iv @ data),
       fernet_decrypt =
         (\<lambda>key token.
            if take (length key) token = key then Some (drop (length key + 2) token) else None),
       fernet_key_ok = (\<lambda>key. length key = 4),
       kdf_derive = (\<lambda>salt secret. salt @ secret),
       markup_ok = demo_markup_ok,
       object_attribute = (\<lambda>name. name \<in> set [''__doc__'', ''__eq__'', ''__init__'']) \<rparr>"

definition demo_client :: client where
  "demo_client = \<lparr> settings = Settings_default, cipher_suite = ''key1'' \<rparr>"

definition demo_files :: filesys where
  "demo_files = [SETTINGS_FILE \<mapsto> ''old settings'', ENCRYPTION_KEY_FILE \<mapsto> ''key1'']"

text \<open>Answers to the prompts of \<^verbatim>\<open>update_settings\<close>, each with one invalid proposal.\<close>

definition demo_bad_days :: "string list" where
  "demo_bad_days = [''0'', ''5'', ''no'', ''https://example.org/repo.git'', '''']"

definition demo_bad_freq :: "string list" where
  "demo_bad_freq = [''30'', ''-5'', ''no'', ''https://example.org/repo.git'', '''']"

definition demo_bad_url :: "string list" where
  "demo_bad_url = [''30'', ''5'', '' Yes '', ''https://example.org/repo'', '''']"

section \<open>Properties of verify\_hwid\<close>

lemma range_MAX_RETRIES: "[0..<MAX_RETRIES] = [0, Suc 0, 2]"
  by (simp add: MAX_RETRIES_def upt_rec)



lemma first_response_decides:
  assumes "net 0 = Responds status (JDict d)"
    and "interpret_response lib status (JDict d) = Inr (b, evs)"
  shows "verify_hwid lib net hwid = (Inr b, Print (Verifying hwid) # Post hwid # evs)"
  using assms by (simp add: verify_hwid_def range_MAX_RETRIES attempt_body_def attempt_try_def)









text \<open>
  The run of the second kind in full, with the example console: status 429 with the
  error text \<^verbatim>\<open>[/]\<close>, a closing tag with nothing to close.  Every attempt raises
  \<^verbatim>\<open>MarkupError\<close>; after the third the handler's own print fails on the quoted tag, and
  the exception leaves \<^verbatim>\<open>verify_hwid\<close>.
\<close>

lemma closing_tag_run:
  "verify_hwid demo_lib net_closing_tag ''hwid'' =
     (Inl (MarkupError (Error_during_verification
                          (MarkupError (Verification_failed (JStr ''[/]''))))),
      [Print (Verifying ''hwid''),
       Post ''hwid'', Print (Error_occurred_retrying 1 3), Sleep 2,
       Post ''hwid'', Print (Error_occurred_retrying 2 3), Sleep 2,
       Post ''hwid''])"
  unfolding verify_hwid_def range_MAX_RETRIES
  by (simp add: attempt_body_def attempt_try_def interpret_response_def net_closing_tag_def
      MAX_RETRIES_def RETRY_DELAY_def console_print_def dict_get_default_def demo_lib_def)

text \<open>
  Claim C9.  On status 200 the check is Python truthiness of \<^verbatim>\<open>exists\<close> and
  \<^verbatim>\<open>verified\<close> and equality of \<^verbatim>\<open>status\<close> with the string \<^verbatim>\<open>active\<close>: any truthy
  values, such as a nonzero number or a nonempty string, lead to success.
\<close>

theorem truthy_fields_verify:
  assumes "net 0 = Responds 200 (JDict d)"
    and "truthy (dict_get d ''exists'')"
    and "truthy (dict_get d ''verified'')"
    and "dict_get d ''status'' = JStr ''active''"
  shows "verify_hwid lib net hwid
           = (Inr True, [Print (Verifying hwid), Post hwid, Print Verified_successfully])"
  using assms(1) by (rule first_response_decides) (simp add: interpret_response_def assms)

theorem truthy_fields_verify_witness:
  "dict_get body_truthy ''exists'' = JInt 1
 \<and> dict_get body_truthy ''verified'' = JStr ''yes''
 \<and> verify_hwid demo_lib net_truthy ''hwid''
     = (Inr True, [Print (Verifying ''hwid''), Post ''hwid'', Print Verified_successfully])"
  using truthy_fields_verify [where net = net_truthy and d = body_truthy and hwid = "''hwid''"
      and lib = demo_lib]
  by (simp add: net_truthy_def body_truthy_def dict_get_def dict_get_default_def)

section \<open>Properties of the settings store\<close>

lemma backup_path [simp]: "with_suffix SETTINGS_FILE ''.bak'' = ''settings.bak''"
  by (simp add: with_suffix_def SETTINGS_FILE_def)

lemma settings_path [simp]:
  "SETTINGS_FILE \<noteq> ''settings.bak''" "''settings.bak'' \<noteq> SETTINGS_FILE"
  by (simp_all add: SETTINGS_FILE_def)

lemma load_settings_reads_one_file:
  "fs' SETTINGS_FILE = fs SETTINGS_FILE \<Longrightarrow>
   load_settings lib ro c fs' = load_settings lib ro c fs"
  by (simp add: load_settings_def load_try_def read_bytes_def exists_def
      split: read_outcome.split)

lemma apply_items_asdict: "apply_items lib (asdict s) extras s0 = (None, s, [])"
  by (simp add: asdict_def hasattr_def setattr_def field_names_def)

text \<open>
  Two runs of the loop on keys that name special attributes.  \<^verbatim>\<open>__class__\<close> stops it with
  what was assigned before still assigned; \<^verbatim>\<open>__dict__\<close> replaces the instance
  dictionary, so an earlier assignment is gone and the names of the new dictionary count
  as attributes.
\<close>

lemma class_key_stops_loop:
  "apply_items lib [(''total_day'', JInt 5), (''__class__'', JInt 1), (''commit_freq'', JInt 7)]
     [] Settings_default
   = (Some (TypeError ''__class__ must be set to a class''),
      Settings_default\<lparr>total_day := JInt 5\<rparr>, [])"
  by (simp add: hasattr_def setattr_def field_names_def asdict_def)

lemma dict_key_replaces_instance:
  "apply_items demo_lib
     [(''total_day'', JInt 5),
      (''__dict__'', JDict [(''commit_freq'', JInt 7), (''foo'', JInt 1)]),
      (''foo'', JInt 2), (''bar'', JInt 3)]
     [] Settings_default
   = (None, Settings_default\<lparr>commit_freq := JInt 7\<rparr>, [LogWarning (Unknown_setting ''bar'')])"
  by (simp add: hasattr_def setattr_def field_names_def asdict_def fields_of_dict_def
      dict_get_default_def demo_lib_def Settings_default_def)

text \<open>
  Claim C2.  When a settings file exists and the write step of \<^verbatim>\<open>save_settings\<close> fails
  (before or after the new file was opened), the call logs the error, moves the backup
  back and raises: the settings path holds the old contents again, no backup file is
  left, and a later \<^verbatim>\<open>load_settings\<close> sees what it would have seen before the call.
\<close>

theorem failed_write_restores_backup:
  assumes "fs SETTINGS_FILE = Some old" and "wo \<noteq> WriteOk"
  shows "save_settings lib wo iv c fs =
           (Some (OSError ''write_bytes''), fs(with_suffix SETTINGS_FILE ''.bak'' := None),
            [LogError (Failed_to_save_settings (OSError ''write_bytes''))])
       \<and> (fs(with_suffix SETTINGS_FILE ''.bak'' := None)) SETTINGS_FILE = Some old
       \<and> load_settings lib ro c' (fs(with_suffix SETTINGS_FILE ''.bak'' := None))
           = load_settings lib ro c' fs"
proof -
  have "save_settings lib wo iv c fs =
           (Some (OSError ''write_bytes''), fs(''settings.bak'' := None),
            [LogError (Failed_to_save_settings (OSError ''write_bytes''))])"
    using assms
    by (cases wo)
      (auto simp add: save_settings_def exists_def rename_def write_bytes_def fun_eq_iff)
  moreover have "(fs(''settings.bak'' := None)) SETTINGS_FILE = Some old"
    using assms(1) by simp
  moreover have "load_settings lib ro c' (fs(''settings.bak'' := None)) = load_settings lib ro c' fs"
    by (rule load_settings_reads_one_file) simp
  ultimately show ?thesis by simp
qed

theorem failed_write_restores_backup_witness:
  "demo_files SETTINGS_FILE = Some ''old settings''
 \<and> fst (save_settings demo_lib (WriteFailsPartial ''par'') ''iv'' demo_client demo_files)
      = Some (OSError ''write_bytes'')
 \<and> fst (snd (save_settings demo_lib (WriteFailsPartial ''par'') ''iv'' demo_client demo_files))
      SETTINGS_FILE = Some ''old settings''"
  using failed_write_restores_backup [where fs = demo_files and old = "''old settings''"
      and wo = "WriteFailsPartial ''par''" and lib = demo_lib and iv = "''iv''" and c = demo_client]
  by (simp add: demo_files_def SETTINGS_FILE_def ENCRYPTION_KEY_FILE_def)

text \<open>
  Claim C3.  Provided the cipher decrypts, under the same key, what it encrypted and the
  JSON codec decodes what it encoded for this record, a successful \<^verbatim>\<open>save_settings\<close> of
  a record \<open>s\<close> followed by \<^verbatim>\<open>load_settings\<close> with the same key gives exactly \<open>s\<close>, whatever
  the record in memory was before the load, and logs nothing.
\<close>

theorem save_then_load_roundtrip:
  assumes "fernet_decrypt lib key (fernet_encrypt lib key iv (json_dumps lib (JDict (asdict s))))
             = Some (json_dumps lib (JDict (asdict s)))"
    and "json_loads lib (json_dumps lib (JDict (asdict s))) = Some (JDict (asdict s))"
  shows "fst (save_settings lib WriteOk iv \<lparr>settings = s, cipher_suite = key\<rparr> fs) = None
       \<and> load_settings lib ReadOk \<lparr>settings = s0, cipher_suite = key\<rparr>
            (fst (snd (save_settings lib WriteOk iv \<lparr>settings = s, cipher_suite = key\<rparr> fs)))
           = (\<lparr>settings = s, cipher_suite = key\<rparr>, [])"
proof -
  let ?blob = "fernet_encrypt lib key iv (json_dumps lib (JDict (asdict s)))"
  let ?r = "save_settings lib WriteOk iv \<lparr>settings = s, cipher_suite = key\<rparr> fs"
  have r: "fst ?r = None" "fst (snd ?r) SETTINGS_FILE = Some ?blob"
    by (simp_all add: save_settings_def write_bytes_def exists_def unlink_def rename_def Let_def)
  have "load_settings lib ReadOk \<lparr>settings = s0, cipher_suite = key\<rparr> (fst (snd ?r))
          = (\<lparr>settings = s, cipher_suite = key\<rparr>, [])"
    using r(2) assms
    by (simp add: load_settings_def load_try_def read_bytes_def exists_def apply_items_asdict)
  with r(1) show ?thesis by simp
qed

theorem save_then_load_roundtrip_witness:
  "fst (save_settings demo_lib WriteOk ''iv'' demo_client demo_files) = None
 \<and> load_settings demo_lib ReadOk
      \<lparr>settings = Settings_default\<lparr>total_day := JInt 1\<rparr>, cipher_suite = ''key1''\<rparr>
      (fst (snd (save_settings demo_lib WriteOk ''iv'' demo_client demo_files)))
     = (demo_client, [])"
  using save_then_load_roundtrip [where lib = demo_lib and key = "''key1''" and iv = "''iv''"
      and s = Settings_default and ?s0.0 = "Settings_default\<lparr>total_day := JInt 1\<rparr>"
      and fs = demo_files]
  by (simp add: demo_lib_def demo_client_def)

text \<open>
  Claim C5.  \<^verbatim>\<open>load_settings\<close> has no exceptional result.  Without a settings file it
  leaves the record as it is and logs nothing; when the file cannot be decrypted, cannot
  be parsed, does not hold a JSON object or cannot be read, it leaves the record as it is
  and logs one warning.  Its only caller, \<^verbatim>\<open>__init__\<close>, calls it on the default record,
  so the record is then the default one.
\<close>

theorem load_settings_falls_back:
  "(fs SETTINGS_FILE = None \<longrightarrow> load_settings lib ro c fs = (c, []))
 \<and> (fs SETTINGS_FILE = Some blob \<and> fernet_decrypt lib (cipher_suite c) blob = None \<longrightarrow>
      load_settings lib ReadOk c fs = (c, [LogWarning (Could_not_load_settings InvalidToken)]))
 \<and> (fs SETTINGS_FILE = Some blob \<and> fernet_decrypt lib (cipher_suite c) blob = Some plain
      \<and> json_loads lib plain = None \<longrightarrow>
      load_settings lib ReadOk c fs
        = (c, [LogWarning (Could_not_load_settings (ValueError ''json''))]))
 \<and> (fs SETTINGS_FILE = Some blob \<and> fernet_decrypt lib (cipher_suite c) blob = Some plain
      \<and> json_loads lib plain = Some v \<and> (\<forall>d. v \<noteq> JDict d) \<longrightarrow>
      load_settings lib ReadOk c fs
        = (c, [LogWarning (Could_not_load_settings (AttributeError ''items''))]))
 \<and> (fs SETTINGS_FILE = Some blob \<longrightarrow>
      load_settings lib ReadFails c fs
        = (c, [LogWarning (Could_not_load_settings (OSError ''read_bytes''))]))
 \<and> (init_encryption lib salt secret fs = (Inr key, fs') \<and> fs' SETTINGS_FILE = None \<longrightarrow>
      HWIDClient_init lib salt secret ro fs
        = (Inr \<lparr>settings = Settings_default, cipher_suite = key\<rparr>, fs', []))"
  by (cases v)
    (simp_all add: load_settings_def load_try_def read_bytes_def exists_def HWIDClient_init_def)

theorem load_settings_falls_back_witness:
  "load_settings demo_lib ReadOk demo_client Map.empty = (demo_client, [])
 \<and> load_settings demo_lib ReadOk demo_client [SETTINGS_FILE \<mapsto> ''garbage'']
      = (demo_client, [LogWarning (Could_not_load_settings InvalidToken)])
 \<and> load_settings demo_lib ReadOk demo_client [SETTINGS_FILE \<mapsto> ''key1iv{'']
      = (demo_client, [LogWarning (Could_not_load_settings (ValueError ''json''))])
 \<and> HWIDClient_init demo_lib ''s1'' ''x1'' ReadOk [ENCRYPTION_KEY_FILE \<mapsto> ''key1'']
      = (Inr demo_client, [ENCRYPTION_KEY_FILE \<mapsto> ''key1''], [])
 \<and> settings demo_client = Settings_default"
  using load_settings_falls_back [where fs = Map.empty and lib = demo_lib and ro = ReadOk
      and c = demo_client]
    load_settings_falls_back [where fs = "[SETTINGS_FILE \<mapsto> ''garbage'']"
      and blob = "''garbage''" and lib = demo_lib and c = demo_client]
    load_settings_falls_back [where fs = "[SETTINGS_FILE \<mapsto> ''key1iv{'']"
      and blob = "''key1iv{''" and lib = demo_lib and c = demo_client and plain = "''{''"]
    load_settings_falls_back [where fs = "[ENCRYPTION_KEY_FILE \<mapsto> ''key1'']"
      and fs' = "[ENCRYPTION_KEY_FILE \<mapsto> ''key1'']" and key = "''key1''"
      and lib = demo_lib and salt = "''s1''" and secret = "''x1''" and ro = ReadOk]
  by (simp add: demo_lib_def demo_client_def init_encryption_def exists_def
      SETTINGS_FILE_def ENCRYPTION_KEY_FILE_def)

text \<open>
  Claim C6 as stated names the keys of the payload \<^verbatim>\<open>total_days\<close>, \<^verbatim>\<open>commits_per_day\<close>,
  \<^verbatim>\<open>variability_enabled\<close> and \<^verbatim>\<open>repository_url\<close>.  The payload of the default record
  does not have these keys.
\<close>

theorem payload_field_names_differ:
  "set (map fst (asdict Settings_default)) \<noteq> set spec_field_names"
proof
  assume "set (map fst (asdict Settings_default)) = set spec_field_names"
  moreover have "''total_days'' \<in> set spec_field_names"
    by (simp add: spec_field_names_def)
  ultimately have "''total_days'' \<in> set (map fst (asdict Settings_default))"
    by simp
  then show False by (simp add: asdict_def)
qed

text \<open>
  Claim C6, as the code has it.  A successful \<^verbatim>\<open>save_settings\<close> writes the encryption of
  the JSON text of a dictionary whose keys are exactly the seven field names of the
  dataclass, each once, in declaration order.
\<close>

theorem payload_fields:
  "fst (snd (save_settings lib WriteOk iv c fs)) SETTINGS_FILE
     = Some (fernet_encrypt lib (cipher_suite c) iv (json_dumps lib (JDict (asdict (settings c)))))
 \<and> map fst (asdict (settings c))
     = [''total_day'', ''commit_freq'', ''variability'', ''repo_link'',
        ''commit_message_template'', ''author_name'', ''author_email'']"
  by (simp add: save_settings_def write_bytes_def exists_def unlink_def rename_def Let_def
      asdict_def)

text \<open>
  Claim C7.  A second \<^verbatim>\<open>init_encryption\<close>, on the files the first one left, gives the
  result of the first one and changes no file, whatever random bytes it would draw; and
  when the key file exists, the key is the contents of that file.
\<close>

theorem key_acquisition_idempotent:
  "init_encryption lib salt' secret' (snd (init_encryption lib salt secret fs))
     = init_encryption lib salt secret fs
 \<and> (fs ENCRYPTION_KEY_FILE = Some key \<longrightarrow>
      init_encryption lib salt secret fs
        = (if fernet_key_ok lib key then Inr key
           else Inl (OtherException ''Failed to initialize encryption''), fs))"
  by (auto simp add: init_encryption_def exists_def Let_def split: option.splits)

theorem key_acquisition_idempotent_witness:
  "init_encryption demo_lib ''s2'' ''x2'' (snd (init_encryption demo_lib ''s1'' ''x1'' Map.empty))
     = (Inr ''s1x1'', [ENCRYPTION_KEY_FILE \<mapsto> ''s1x1''])
 \<and> init_encryption demo_lib ''s1'' ''x1'' Map.empty
     = (Inr ''s1x1'', [ENCRYPTION_KEY_FILE \<mapsto> ''s1x1''])
 \<and> init_encryption demo_lib ''s2'' ''x2'' demo_files = (Inr ''key1'', demo_files)"
proof -
  have a: "init_encryption demo_lib ''s1'' ''x1'' Map.empty
             = (Inr ''s1x1'', [ENCRYPTION_KEY_FILE \<mapsto> ''s1x1''])"
    by (simp add: init_encryption_def exists_def demo_lib_def Let_def)
  have b: "demo_files ENCRYPTION_KEY_FILE = Some ''key1''"
    by (simp add: demo_files_def)
  from key_acquisition_idempotent [where lib = demo_lib and salt' = "''s2''" and secret' = "''x2''"
      and salt = "''s1''" and secret = "''x1''" and fs = Map.empty]
    key_acquisition_idempotent [where lib = demo_lib and salt = "''s2''" and secret = "''x2''"
      and fs = demo_files and key = "''key1''"] a b
  show ?thesis by (simp add: demo_lib_def)
qed

section \<open>Properties of update\_settings\<close>

lemmas text_evaluation =
  positive_integer_text_def ascii_digit_def decimal_value_def digit_value_def
  strip_def isspace_def lower_def uppercase_def lowercase_def endswith_def

lemma digit_value_ascii:
  assumes "ascii_digit c"
  shows "0 \<le> digit_value c" and "digit_value c = 0 \<longleftrightarrow> c = CHR ''0''"
  using assms by (auto simp add: ascii_digit_def digit_value_def)

lemma decimal_fold_positive:
  assumes "list_all ascii_digit s" and "0 \<le> acc"
  shows "0 \<le> foldl (\<lambda>acc c. 10 * acc + digit_value c) acc s
       \<and> (0 < foldl (\<lambda>acc c. 10 * acc + digit_value c) acc s
            \<longleftrightarrow> 0 < acc \<or> list_ex (\<lambda>c. c \<noteq> CHR ''0'') s)"
  using assms
proof (induction s arbitrary: acc)
  case Nil
  then show ?case by simp
next
  case (Cons c s)
  from Cons.prems have c: "ascii_digit c" and s: "list_all ascii_digit s" by simp_all
  from digit_value_ascii [OF c] Cons.prems(2)
  have "0 \<le> 10 * acc + digit_value c"
    and "0 < 10 * acc + digit_value c \<longleftrightarrow> 0 < acc \<or> c \<noteq> CHR ''0''"
    by auto
  with Cons.IH [OF s, of "10 * acc + digit_value c"] show ?case by auto
qed

text \<open>The check of the source accepts exactly the texts that denote a positive integer.\<close>

lemma positive_number_iff:
  "positive_number s what = Inr n \<longleftrightarrow> positive_integer_text s \<and> n = decimal_value s"
proof (cases "s \<noteq> [] \<and> list_all ascii_digit s")
  case True
  then have "isdigit s" by (auto simp add: isdigit_def list_all_iff)
  moreover from True decimal_fold_positive [of s 0]
  have "0 < decimal_value s \<longleftrightarrow> list_ex (\<lambda>c. c \<noteq> CHR ''0'') s"
    by (simp add: decimal_value_def)
  ultimately show ?thesis
    using True by (auto simp add: positive_number_def py_int_def positive_integer_text_def)
next
  case False
  then show ?thesis
    by (auto simp add: positive_number_def py_int_def positive_integer_text_def)
qed

lemma positive_number_rejects:
  assumes "\<not> positive_integer_text s"
  shows "\<exists>m. positive_number s what = Inl (ValueError m)"
proof (cases "positive_number s what")
  case (Inl e)
  then show ?thesis
    by (auto simp add: positive_number_def py_int_def split: if_splits)
next
  case (Inr n)
  with assms show ?thesis by (simp add: positive_number_iff)
qed

lemma positive_number_cases:
  obtains (rejected) m where "positive_number s what = Inl (ValueError m)"
  | (accepted) "positive_number s what = Inr (decimal_value s)"
proof (cases "positive_integer_text s")
  case True
  then have "positive_number s what = Inr (decimal_value s)" by (simp add: positive_number_iff)
  then show ?thesis by (rule accepted)
next
  case False
  from positive_number_rejects [OF False, of what] show ?thesis using rejected by blast
qed

lemma rejected_try:
  assumes "(stdin = td # rest \<and> \<not> positive_integer_text td)
         \<or> (stdin = td # cf # rest \<and> \<not> positive_integer_text cf)
         \<or> (stdin = td # cf # ans # url # rest \<and> \<not> endswith (strip url) ''.git'')"
  shows "\<exists>m c' unread. \<forall>wo iv.
           update_try lib wo iv c fs stdin = (Some (ValueError m), c', fs, unread, [])"
  using assms
proof (elim disjE conjE)
  assume "stdin = td # rest" "\<not> positive_integer_text td"
  then show ?thesis
    using positive_number_rejects [of td "''Total days must be a positive number''"]
    by (auto simp add: update_try_def console_input_def)
next
  assume a: "stdin = td # cf # rest" "\<not> positive_integer_text cf"
  show ?thesis
  proof (rule positive_number_cases
      [where s = td and what = "''Total days must be a positive number''"])
    fix m assume "positive_number td ''Total days must be a positive number'' = Inl (ValueError m)"
    with a show ?thesis by (auto simp add: update_try_def console_input_def)
  next
    assume "positive_number td ''Total days must be a positive number'' = Inr (decimal_value td)"
    with a positive_number_rejects [of cf "''Commits per day must be a positive number''"]
    show ?thesis by (auto simp add: update_try_def console_input_def Let_def)
  qed
next
  assume a: "stdin = td # cf # ans # url # rest" "\<not> endswith (strip url) ''.git''"
  show ?thesis
  proof (rule positive_number_cases
      [where s = td and what = "''Total days must be a positive number''"])
    fix m assume "positive_number td ''Total days must be a positive number'' = Inl (ValueError m)"
    with a show ?thesis by (auto simp add: update_try_def console_input_def)
  next
    assume td: "positive_number td ''Total days must be a positive number''
        = Inr (decimal_value td)"
    show ?thesis
    proof (rule positive_number_cases
        [where s = cf and what = "''Commits per day must be a positive number''"])
      fix m assume "positive_number cf ''Commits per day must be a positive number''
          = Inl (ValueError m)"
      with a td show ?thesis by (auto simp add: update_try_def console_input_def Let_def)
    next
      assume "positive_number cf ''Commits per day must be a positive number''
          = Inr (decimal_value cf)"
      with a td show ?thesis by (auto simp add: update_try_def console_input_def Let_def)
    qed
  qed
qed

text \<open>
  Claim C8.  When the answer for the total days or for the commits per day does not
  denote a positive integer, or the answer for the repository URL, once stripped of
  surrounding white space as the code does, does not end in \<^verbatim>\<open>.git\<close>, the call prints
  the invalid-input message and nothing about saving, and leaves the file system as it
  was.  The outcome is the same whatever the write would have done and whatever the
  cipher would have drawn: \<^verbatim>\<open>save_settings\<close> is not reached.
\<close>

theorem invalid_proposal_rejected:
  assumes "(stdin = td # rest \<and> \<not> positive_integer_text td)
         \<or> (stdin = td # cf # rest \<and> \<not> positive_integer_text cf)
         \<or> (stdin = td # cf # ans # url # rest \<and> \<not> endswith (strip url) ''.git'')"
  shows "\<exists>m r c' unread. \<forall>wo iv.
           update_settings lib wo iv c fs stdin
             = (r, c', fs, unread,
                [Print Update_Settings_header, Print (Invalid_input (ValueError m)),
                 Sleep (1 / 2)])"
proof -
  from rejected_try [OF assms] obtain m c' unread where
    t: "\<And>wo iv. update_try lib wo iv c fs stdin = (Some (ValueError m), c', fs, unread, [])"
    by blast
  obtain r unread' where p: "prompt_return unread = (r, unread', [Sleep (1 / 2)])"
    by (cases unread) (simp_all add: prompt_return_def console_input_def)
  have "\<forall>wo iv. update_settings lib wo iv c fs stdin
      = (r, c', fs, unread',
         [Print Update_Settings_header, Print (Invalid_input (ValueError m)), Sleep (1 / 2)])"
    by (simp add: update_settings_def t p)
  then show ?thesis by blast
qed

theorem invalid_proposal_rejected_witness:
  "\<not> positive_integer_text ''0'' \<and> \<not> positive_integer_text ''-5''
 \<and> \<not> endswith (strip ''https://example.org/repo'') ''.git''
 \<and> (\<exists>m r c' unread. \<forall>wo iv.
       update_settings demo_lib wo iv demo_client demo_files demo_bad_days
         = (r, c', demo_files, unread,
            [Print Update_Settings_header, Print (Invalid_input (ValueError m)), Sleep (1 / 2)]))
 \<and> (\<exists>m r c' unread. \<forall>wo iv.
       update_settings demo_lib wo iv demo_client demo_files demo_bad_freq
         = (r, c', demo_files, unread,
            [Print Update_Settings_header, Print (Invalid_input (ValueError m)), Sleep (1 / 2)]))
 \<and> (\<exists>m r c' unread. \<forall>wo iv.
       update_settings demo_lib wo iv demo_client demo_files demo_bad_url
         = (r, c', demo_files, unread,
            [Print Update_Settings_header, Print (Invalid_input (ValueError m)), Sleep (1 / 2)]))"
proof -
  have h: "\<not> positive_integer_text ''0''" "\<not> positive_integer_text ''-5''"
    "\<not> endswith (strip ''https://example.org/repo'') ''.git''"
    by (simp_all add: text_evaluation)
  show ?thesis
    using h
      invalid_proposal_rejected [where stdin = demo_bad_days and td = "''0''"
        and rest = "[''5'', ''no'', ''https://example.org/repo.git'', '''']"
        and lib = demo_lib and c = demo_client and fs = demo_files]
      invalid_proposal_rejected [where stdin = demo_bad_freq and td = "''30''" and cf = "''-5''"
        and rest = "[''no'', ''https://example.org/repo.git'', '''']"
        and lib = demo_lib and c = demo_client and fs = demo_files]
      invalid_proposal_rejected [where stdin = demo_bad_url and td = "''30''" and cf = "''5''"
        and ans = "'' Yes ''" and url = "''https://example.org/repo''" and rest = "['''']"
        and lib = demo_lib and c = demo_client and fs = demo_files]
    by (simp add: demo_bad_days_def demo_bad_freq_def demo_bad_url_def)
qed

text \<open>
  Claim C10.  A rejection part of the way through the prompts leaves the file system as
  it was, and the record in memory keeps the answers accepted before it: the total days
  when the commits per day are refused; the total days, the commits per day and the
  variability flag when the repository URL is refused.
\<close>

theorem partial_update_kept_in_memory:
  assumes "positive_integer_text td"
  shows "(\<not> positive_integer_text cf \<longrightarrow>
          (\<exists>r unread evs.
             update_settings lib wo iv c fs (td # cf # rest)
               = (r, c\<lparr>settings := (settings c)\<lparr>total_day := JInt (decimal_value td)\<rparr>\<rparr>,
                  fs, unread, evs)))
       \<and> (positive_integer_text cf \<and> \<not> endswith (strip url) ''.git'' \<longrightarrow>
          (\<exists>r unread evs.
             update_settings lib wo iv c fs (td # cf # ans # url # rest)
               = (r, c\<lparr>settings := (settings c)
                        \<lparr>total_day := JInt (decimal_value td),
                         commit_freq := JInt (decimal_value cf),
                         variability := JBool (lower (strip ans) = ''yes'')\<rparr>\<rparr>,
                  fs, unread, evs)))"
proof (intro conjI impI)
  from assms have td: "positive_number td ''Total days must be a positive number''
      = Inr (decimal_value td)"
    by (simp add: positive_number_iff)
  {
    assume "\<not> positive_integer_text cf"
    then obtain m where "positive_number cf ''Commits per day must be a positive number''
        = Inl (ValueError m)"
      using positive_number_rejects by blast
    with td have "update_try lib wo iv c fs (td # cf # rest)
        = (Some (ValueError m),
           c\<lparr>settings := (settings c)\<lparr>total_day := JInt (decimal_value td)\<rparr>\<rparr>, fs, rest, [])"
      by (simp add: update_try_def console_input_def Let_def)
    then show "\<exists>r unread evs.
             update_settings lib wo iv c fs (td # cf # rest)
               = (r, c\<lparr>settings := (settings c)\<lparr>total_day := JInt (decimal_value td)\<rparr>\<rparr>,
                  fs, unread, evs)"
      by (simp add: update_settings_def split: prod.split)
  }
  {
    assume a: "positive_integer_text cf \<and> \<not> endswith (strip url) ''.git''"
    then have "positive_number cf ''Commits per day must be a positive number''
        = Inr (decimal_value cf)"
      by (simp add: positive_number_iff)
    with td a have "update_try lib wo iv c fs (td # cf # ans # url # rest)
        = (Some (ValueError ''Repository URL must end with .git''),
           c\<lparr>settings := (settings c)
                        \<lparr>total_day := JInt (decimal_value td),
                         commit_freq := JInt (decimal_value cf),
                         variability := JBool (lower (strip ans) = ''yes'')\<rparr>\<rparr>, fs, rest, [])"
      by (simp add: update_try_def console_input_def Let_def)
    then show "\<exists>r unread evs.
             update_settings lib wo iv c fs (td # cf # ans # url # rest)
               = (r, c\<lparr>settings := (settings c)
                        \<lparr>total_day := JInt (decimal_value td),
                         commit_freq := JInt (decimal_value cf),
                         variability := JBool (lower (strip ans) = ''yes'')\<rparr>\<rparr>,
                  fs, unread, evs)"
      by (simp add: update_settings_def split: prod.split)
  }
qed

theorem partial_update_kept_in_memory_witness:
  "positive_integer_text ''30'' \<and> positive_integer_text ''5''
 \<and> \<not> endswith (strip ''https://example.org/repo'') ''.git''
 \<and> (\<exists>r unread evs.
       update_settings demo_lib WriteOk ''iv'' demo_client demo_files demo_bad_url
         = (r, demo_client\<lparr>settings := Settings_default
                  \<lparr>total_day := JInt 30, commit_freq := JInt 5, variability := JBool True\<rparr>\<rparr>,
            demo_files, unread, evs))"
proof -
  have h: "positive_integer_text ''30''" "positive_integer_text ''5''"
    "\<not> endswith (strip ''https://example.org/repo'') ''.git''"
    by (simp_all add: text_evaluation)
  have v: "decimal_value ''30'' = 30" "decimal_value ''5'' = 5" "lower (strip '' Yes '') = ''yes''"
    by (simp_all add: text_evaluation)
  show ?thesis
    using h v
      partial_update_kept_in_memory [where td = "''30''" and cf = "''5''" and ans = "'' Yes ''"
        and url = "''https://example.org/repo''" and rest = "['''']"
        and lib = demo_lib and wo = WriteOk and iv = "''iv''" and c = demo_client
        and fs = demo_files]
    by (simp add: demo_bad_url_def demo_client_def)
qed

end
